theory Spec2Isabelle
  imports Complex_Main
begin

section \<open>Python results, tensors and values\<close>

text \<open>
  The notebooks are Python on top of an external tensor library and an external
  agent/workspace framework. A call either returns a value or raises; a raise is the
  left summand of the result type.
\<close>

datatype error =
    AssertionError string
  | NameError string
  | TypeError string
  | RuntimeError string
  | IndexError string
  | WorkspaceError string

type_synonym 'a result = "error + 'a"

definition bind_r :: "'a result \<Rightarrow> ('a \<Rightarrow> 'b result) \<Rightarrow> 'b result" where
  "bind_r m f = (case m of Inl e \<Rightarrow> Inl e | Inr x \<Rightarrow> f x)"

text \<open>\<^verbatim>\<open>assert cond, msg\<close>\<close>

definition py_assert :: "bool \<Rightarrow> string \<Rightarrow> unit result" where
  "py_assert cond msg = (if cond then Inr () else Inl (AssertionError msg))"

text \<open>
  A floating-point entry is a number, an infinity or NaN; rounding is not modelled,
  numbers are reals. A tensor is a nested array of entries of one dtype.
\<close>

datatype fl = NaN | NegInf | Num real | PosInf

datatype 'a nd = Scalar 'a | Dim "'a nd list"

datatype tensor = FloatT "fl nd" | LongT "int nd" | BoolT "bool nd"

fun flatten :: "'a nd \<Rightarrow> 'a list" where
  "flatten (Scalar x) = [x]"
| "flatten (Dim ts) = concat (map flatten ts)"

fun isnan :: "fl \<Rightarrow> bool" where
  "isnan NaN = True"
| "isnan _ = False"

text \<open>\<^verbatim>\<open>torch.any(torch.isnan(x))\<close>; a tensor of an integer or boolean dtype has no NaN.\<close>

fun any_isnan :: "tensor \<Rightarrow> bool" where
  "any_isnan (FloatT x) = list_ex isnan (flatten x)"
| "any_isnan (LongT x) = False"
| "any_isnan (BoolT x) = False"

text \<open>
  \<^verbatim>\<open>~x\<close>: elementwise logical negation of a boolean tensor, bitwise complement of an
  integer tensor; the tensor library refuses a floating-point tensor.
\<close>

fun invert :: "tensor \<Rightarrow> tensor result" where
  "invert (BoolT x) = Inr (BoolT (map_nd Not x))"
| "invert (LongT x) = Inr (LongT (map_nd (\<lambda>i. - i - 1) x))"
| "invert (FloatT x) = Inl (TypeError ''bitwise_not not implemented for Float'')"


text \<open>Values a notebook function can hold or return.\<close>

datatype pyval =
    PNone
  | Ellipsis
  | PTensor tensor
  | PTuple "pyval list"

fun fl_sign :: "fl \<Rightarrow> int option" where
  "fl_sign NaN = None"
| "fl_sign NegInf = Some (- 1)"
| "fl_sign PosInf = Some 1"
| "fl_sign (Num a) = Some (if a < 0 then - 1 else if a = 0 then 0 else 1)"

fun fl_mul :: "fl \<Rightarrow> fl \<Rightarrow> fl" where
  "fl_mul (Num a) (Num b) = Num (a * b)"
| "fl_mul x y =
     (case (fl_sign x, fl_sign y) of
        (Some s, Some t) \<Rightarrow> if s * t = 0 then NaN else if 0 < s * t then PosInf else NegInf
      | _ \<Rightarrow> NaN)"

fun fl_add :: "fl \<Rightarrow> fl \<Rightarrow> fl" where
  "fl_add (Num a) (Num b) = Num (a + b)"
| "fl_add NaN _ = NaN"
| "fl_add _ NaN = NaN"
| "fl_add PosInf NegInf = NaN"
| "fl_add NegInf PosInf = NaN"
| "fl_add PosInf _ = PosInf"
| "fl_add _ PosInf = PosInf"
| "fl_add NegInf _ = NegInf"
| "fl_add _ NegInf = NegInf"

text \<open>Division of a sum by the number of entries it was taken over.\<close>

fun fl_div :: "fl \<Rightarrow> nat \<Rightarrow> fl" where
  "fl_div (Num a) n = (if n = 0 then NaN else Num (a / real n))"
| "fl_div x n = x"


text \<open>
  \<^verbatim>\<open>x ** 2\<close>: defined on tensors (a boolean tensor is promoted to integers), a
  TypeError on \<^verbatim>\<open>None\<close>, \<^verbatim>\<open>...\<close> and tuples.
\<close>

fun py_square :: "pyval \<Rightarrow> pyval result" where
  "py_square (PTensor (FloatT x)) = Inr (PTensor (FloatT (map_nd (\<lambda>a. fl_mul a a) x)))"
| "py_square (PTensor (LongT x)) = Inr (PTensor (LongT (map_nd (\<lambda>a. a * a) x)))"
| "py_square (PTensor (BoolT x)) = Inr (PTensor (LongT (map_nd (\<lambda>a. if a then 1 else 0) x)))"
| "py_square _ = Inl (TypeError ''unsupported operand type(s) for **'')"

text \<open>
  \<^verbatim>\<open>x.mean()\<close>: the mean of all entries of a floating-point tensor, as a
  zero-dimensional tensor; other values have no such method or no mean.
\<close>

fun py_mean :: "pyval \<Rightarrow> pyval result" where
  "py_mean (PTensor (FloatT x)) =
     Inr (PTensor (FloatT (Scalar (fl_div (foldl fl_add (Num 0) (flatten x)) (length (flatten x))))))"
| "py_mean (PTensor _) = Inl (RuntimeError ''mean(): could not infer output dtype'')"
| "py_mean _ = Inl (TypeError ''object has no attribute mean'')"

section \<open>The stubbed exercise functions\<close>

definition not_implemented :: string where
  "not_implemented = ''Not implemented yet''"

text \<open>
  A2C notebook, \<^verbatim>\<open>compute_critic_loss(cfg, reward, must_bootstrap, critic)\<close>:
  \<^verbatim>\<open>delta = ...\<close>, then \<^verbatim>\<open>assert False, 'Not implemented yet'\<close>, then
  \<^verbatim>\<open>critic_loss = (delta**2).mean()\<close> and \<^verbatim>\<open>return critic_loss, delta\<close>.
\<close>

definition compute_critic_loss :: "'c \<Rightarrow> pyval \<Rightarrow> pyval \<Rightarrow> pyval \<Rightarrow> pyval result" where
  "compute_critic_loss cfg reward must_bootstrap critic =
     (let delta = Ellipsis in
      bind_r (py_assert False not_implemented) (\<lambda>_.
      bind_r (py_square delta) (\<lambda>sq.
      bind_r (py_mean sq) (\<lambda>critic_loss.
      Inr (PTuple [critic_loss, delta])))))"

text \<open>
  SAC notebook, \<^verbatim>\<open>compute_critic_loss\<close> with eight parameters: two placeholder
  assertions, then \<^verbatim>\<open>return critic_loss_1, critic_loss_2\<close>, two names the body never
  binds.
\<close>

definition sac_compute_critic_loss ::
  "'c \<Rightarrow> pyval \<Rightarrow> pyval \<Rightarrow> 'a \<Rightarrow> 'q \<Rightarrow> 'q \<Rightarrow> 'w \<Rightarrow> pyval \<Rightarrow> pyval result" where
  "sac_compute_critic_loss cfg reward must_bootstrap t_actor t_q_agents t_target_q_agents
       rb_workspace ent_coef =
     bind_r (py_assert False not_implemented) (\<lambda>_.
     bind_r (py_assert False not_implemented) (\<lambda>_.
     Inl (NameError ''critic_loss_1'')))"

text \<open>
  SAC notebook, \<^verbatim>\<open>compute_actor_loss\<close>: three placeholder assertions around
  \<^verbatim>\<open>torch.min(q_values_1, q_values_2)\<close>, whose operands the body never binds.
\<close>

definition compute_actor_loss :: "pyval \<Rightarrow> 'a \<Rightarrow> 'q \<Rightarrow> 'w \<Rightarrow> pyval result" where
  "compute_actor_loss ent_coef t_actor t_q_agents rb_workspace =
     bind_r (py_assert False not_implemented) (\<lambda>_.
     bind_r (py_assert False not_implemented) (\<lambda>_.
     Inl (NameError ''q_values_1'')))"

text \<open>
  REINFORCE notebook, the default \<^verbatim>\<open>compute_advantage(cfg, reward, v_value)\<close>: its body
  is a docstring and \<^verbatim>\<open>...\<close>, an expression statement; the function falls off its end
  and returns \<^verbatim>\<open>None\<close>.
\<close>

definition compute_advantage :: "'c \<Rightarrow> pyval \<Rightarrow> pyval \<Rightarrow> pyval result" where
  "compute_advantage cfg reward v_value = (let _ = Ellipsis in Inr PNone)"

text \<open>
  REINFORCE notebook, the default
  \<^verbatim>\<open>compute_critic_loss(cfg, reward, must_bootstrap, done, v_value)\<close>: its body is
  \<^verbatim>\<open>pass\<close>.
\<close>

definition reinforce_compute_critic_loss ::
  "'c \<Rightarrow> pyval \<Rightarrow> pyval \<Rightarrow> pyval \<Rightarrow> pyval \<Rightarrow> pyval result" where
  "reinforce_compute_critic_loss cfg reward must_bootstrap done v_value = Inr PNone"

text \<open>REINFORCE notebook, the exercises: one placeholder assertion each.\<close>

definition apply_discounted_sum :: "'c \<Rightarrow> pyval \<Rightarrow> pyval \<Rightarrow> pyval result" where
  "apply_discounted_sum cfg reward v_value =
     bind_r (py_assert False not_implemented) (\<lambda>_. Inr PNone)"

definition apply_discounted_sum_minus_baseline :: "'c \<Rightarrow> pyval \<Rightarrow> pyval \<Rightarrow> pyval result" where
  "apply_discounted_sum_minus_baseline cfg reward v_value =
     bind_r (py_assert False not_implemented) (\<lambda>_. Inr PNone)"

definition compute_td_critic_loss ::
  "'c \<Rightarrow> pyval \<Rightarrow> pyval \<Rightarrow> pyval \<Rightarrow> pyval \<Rightarrow> pyval result" where
  "compute_td_critic_loss cfg reward must_bootstrap done critic =
     bind_r (py_assert False not_implemented) (\<lambda>_. Inl (NameError ''critic_loss''))"

definition compute_critic_loss_mc ::
  "'c \<Rightarrow> pyval \<Rightarrow> pyval \<Rightarrow> pyval \<Rightarrow> pyval \<Rightarrow> pyval result" where
  "compute_critic_loss_mc cfg reward must_bootstrap done critic =
     bind_r (py_assert False not_implemented) (\<lambda>_. Inr PNone)"

section \<open>The sum of rewards\<close>













section \<open>The workspace and the agents\<close>

text \<open>
  The workspace is the external framework's buffer: a tensor for a variable name and a
  time step. \<^verbatim>\<open>self.get((name, t))\<close> reads a slot and fails on one that was never
  written; \<^verbatim>\<open>self.set((name, t), v)\<close> writes a slot.
\<close>

type_synonym workspace = "string \<times> nat \<rightharpoonup> tensor"

definition ws_get :: "workspace \<Rightarrow> string \<times> nat \<Rightarrow> tensor result" where
  "ws_get ws k = (case ws k of None \<Rightarrow> Inl (WorkspaceError (fst k)) | Some v \<Rightarrow> Inr v)"

definition ws_set :: "workspace \<Rightarrow> string \<times> nat \<Rightarrow> tensor \<Rightarrow> workspace" where
  "ws_set ws k v = ws(k \<mapsto> v)"

text \<open>
  The operations of the tensor library the agents call, as parameters:
  \<^verbatim>\<open>torch.softmax(x, dim=-1)\<close>, \<^verbatim>\<open>Categorical(p).entropy()\<close>,
  \<^verbatim>\<open>Categorical(p).sample()\<close> (the draw made by that call), \<^verbatim>\<open>p.argmax(1)\<close> and
  \<^verbatim>\<open>x.squeeze(-1)\<close>.
\<close>

record torch =
  softmax :: "tensor \<Rightarrow> tensor"
  categorical_entropy :: "tensor \<Rightarrow> tensor"
  categorical_sample :: "tensor \<Rightarrow> tensor"
  argmax1 :: "tensor \<Rightarrow> tensor"
  squeeze_last :: "tensor \<Rightarrow> tensor"

text \<open>An agent holds the network that \<^verbatim>\<open>__init__\<close> built.\<close>

record ProbAgent =
  model :: "tensor \<Rightarrow> tensor"

record CriticAgent =
  critic_model :: "tensor \<Rightarrow> tensor"

definition ProbAgent_forward :: "torch \<Rightarrow> ProbAgent \<Rightarrow> nat \<Rightarrow> workspace \<Rightarrow> workspace result" where
  "ProbAgent_forward th self t ws =
     bind_r (ws_get ws (''env/env_obs'', t)) (\<lambda>observation.
     let scores = model self observation;
         action_probs = softmax th scores in
     bind_r (py_assert (\<not> any_isnan action_probs) ''NaN Here'') (\<lambda>_.
     let ws1 = ws_set ws (''action_probs'', t) action_probs;
         entropy = categorical_entropy th action_probs in
     Inr (ws_set ws1 (''entropy'', t) entropy)))"

definition StochasticActorAgent_forward :: "torch \<Rightarrow> nat \<Rightarrow> workspace \<Rightarrow> workspace result" where
  "StochasticActorAgent_forward th t ws =
     bind_r (ws_get ws (''action_probs'', t)) (\<lambda>probs.
     let action = categorical_sample th probs in
     Inr (ws_set ws (''action'', t) action))"

definition ArgmaxActorAgent_forward :: "torch \<Rightarrow> nat \<Rightarrow> workspace \<Rightarrow> workspace result" where
  "ArgmaxActorAgent_forward th t ws =
     bind_r (ws_get ws (''action_probs'', t)) (\<lambda>probs.
     let action = argmax1 th probs in
     Inr (ws_set ws (''action'', t) action))"

definition CriticAgent_forward :: "torch \<Rightarrow> CriticAgent \<Rightarrow> nat \<Rightarrow> workspace \<Rightarrow> workspace result" where
  "CriticAgent_forward th self t ws =
     bind_r (ws_get ws (''env/env_obs'', t)) (\<lambda>observation.
     let critic = squeeze_last th (critic_model self observation) in
     Inr (ws_set ws (''critic'', t) critic))"

section \<open>The training loops\<close>

text \<open>
  What the loops use of the external framework, as parameters: the number of time steps
  of a workspace, the workspace of transitions built from one of episodes, and
  \<^verbatim>\<open>workspace[name]\<close>, the tensor of a variable over all time steps (T x B x ...),
  which fails for a variable the workspace does not have.
\<close>

record framework =
  time_size :: "workspace \<Rightarrow> nat"
  get_transitions :: "workspace \<Rightarrow> workspace"
  get_full :: "workspace \<Rightarrow> string \<Rightarrow> tensor result"

text \<open>
  \<^verbatim>\<open>TemporalAgent(agent)(workspace, n_steps=n)\<close> runs the agent's \<^verbatim>\<open>forward\<close> at
  the time steps 0, ..., n - 1 in turn.
\<close>

fun temporal_agent ::
  "(nat \<Rightarrow> workspace \<Rightarrow> workspace result) \<Rightarrow> nat list \<Rightarrow> workspace \<Rightarrow> workspace result" where
  "temporal_agent forward [] ws = Inr ws"
| "temporal_agent forward (t # ts) ws = bind_r (forward t ws) (temporal_agent forward ts)"

text \<open>
  The algorithm object of the framework runs an evaluation when \<^verbatim>\<open>evaluate()\<close> is
  called; what is kept of it here is the number of calls made.
\<close>

record EpisodicAlgo =
  n_evaluate :: nat

record A2CAlgorithm = EpisodicAlgo +
  prob_agent :: ProbAgent
  critic_agent :: CriticAgent


definition evaluate :: "'a EpisodicAlgo_scheme \<Rightarrow> 'a EpisodicAlgo_scheme" where
  "evaluate algo = algo\<lparr>n_evaluate := n_evaluate algo + 1\<rparr>"

text \<open>
  A2C notebook, \<^verbatim>\<open>run_a2c\<close>, the loop body up to the placeholder: the critic is run
  over the whole workspace, the episodes are turned into transitions, five tensors are
  read and \<^verbatim>\<open>must_bootstrap = ~terminated\<close> is computed. The record holds the local
  variables at that point.
\<close>

record a2c_locals =
  a_critic :: tensor
  a_reward :: tensor
  a_action :: tensor
  a_action_probs :: tensor
  a_terminated :: tensor
  a_must_bootstrap :: tensor

definition run_a2c_fetch ::
  "framework \<Rightarrow> torch \<Rightarrow> A2CAlgorithm \<Rightarrow> workspace \<Rightarrow> a2c_locals result" where
  "run_a2c_fetch fw th a2c train_workspace =
     bind_r (temporal_agent (CriticAgent_forward th (critic_agent a2c))
               [0..<time_size fw train_workspace] train_workspace) (\<lambda>ws1.
     let transition_workspace = get_transitions fw ws1 in
     bind_r (get_full fw transition_workspace ''critic'') (\<lambda>critic.
     bind_r (get_full fw transition_workspace ''env/reward'') (\<lambda>reward.
     bind_r (get_full fw transition_workspace ''action'') (\<lambda>action.
     bind_r (get_full fw transition_workspace ''action_probs'') (\<lambda>action_probs.
     bind_r (get_full fw transition_workspace ''env/terminated'') (\<lambda>terminated.
     bind_r (invert terminated) (\<lambda>must_bootstrap.
     Inr \<lparr>a_critic = critic, a_reward = reward, a_action = action,
          a_action_probs = action_probs, a_terminated = terminated,
          a_must_bootstrap = must_bootstrap\<rparr>)))))))"

text \<open>
  The whole body: after the local variables, \<^verbatim>\<open>assert False, 'Not implemented yet'\<close>
  stands where the loss is to be computed, and \<^verbatim>\<open>a2c.evaluate()\<close> is the last
  statement.
\<close>

definition run_a2c_body ::
  "framework \<Rightarrow> torch \<Rightarrow> A2CAlgorithm \<Rightarrow> workspace \<Rightarrow> A2CAlgorithm result" where
  "run_a2c_body fw th a2c train_workspace =
     bind_r (run_a2c_fetch fw th a2c train_workspace) (\<lambda>locals.
     bind_r (py_assert False not_implemented) (\<lambda>_.
     Inr (evaluate a2c)))"

text \<open>
  \<^verbatim>\<open>for train_workspace in a2c.iter_episodes()\<close>: the workspaces the generator yields
  are the list; an exception leaves the loop with the algorithm object as it was then.
  Before the loop the function only builds the temporal critic agent and the optimizer,
  with the framework's constructors.
\<close>

fun run_a2c ::
  "framework \<Rightarrow> torch \<Rightarrow> A2CAlgorithm \<Rightarrow> workspace list \<Rightarrow> unit result \<times> A2CAlgorithm" where
  "run_a2c fw th a2c [] = (Inr (), a2c)"
| "run_a2c fw th a2c (train_workspace # rest) =
     (case run_a2c_body fw th a2c train_workspace of
        Inl e \<Rightarrow> (Inl e, a2c)
      | Inr a2c' \<Rightarrow> run_a2c fw th a2c' rest)"







section \<open>Soft actor-critic: the algorithm object and the entropy optimizer\<close>

record optimizer_cfg =
  classname :: string
  lr :: real

record algorithm_cfg =
  entropy_mode :: string
  init_entropy_coef :: real
  actor_hidden_size :: "nat list"
  critic_hidden_size :: "nat list"

record sac_cfg =
  algorithm :: algorithm_cfg
  entropy_coef_optimizer :: optimizer_cfg






text \<open>
  \<^verbatim>\<open>SACAlgo.__init__\<close>: reads the sizes of the training environment, asserts that its
  actions are continuous, then builds the actor, two critics and their target copies.
  An agent is kept as the layer sizes of its network and the prefix of the variables it
  writes.
\<close>

record train_env =
  obs_size :: nat
  act_size :: nat
  is_continuous_action :: bool

record q_agent =
  q_layers :: "nat list"
  q_prefix :: string

record actor_agent =
  backbone_layers :: "nat list"
  head_in :: nat
  head_out :: nat

record SACAlgo =
  actor :: actor_agent
  critic_1 :: q_agent
  target_critic_1 :: q_agent
  critic_2 :: q_agent
  target_critic_2 :: q_agent

definition SquashedGaussianActor_init :: "nat \<Rightarrow> nat list \<Rightarrow> nat \<Rightarrow> actor_agent result" where
  "SquashedGaussianActor_init state_dim hidden_layers action_dim =
     (if hidden_layers = [] then Inl (IndexError ''list index out of range'')
      else Inr \<lparr>backbone_layers = [state_dim] @ hidden_layers,
                head_in = last hidden_layers, head_out = action_dim\<rparr>)"

definition ContinuousQAgent_init :: "nat \<Rightarrow> nat list \<Rightarrow> nat \<Rightarrow> q_agent" where
  "ContinuousQAgent_init state_dim hidden_layers action_dim =
     \<lparr>q_layers = [state_dim + action_dim] @ hidden_layers @ [1], q_prefix = []\<rparr>"

definition with_prefix :: "q_agent \<Rightarrow> string \<Rightarrow> q_agent" where
  "with_prefix a p = a\<lparr>q_prefix := p\<rparr>"

definition SACAlgo_init :: "sac_cfg \<Rightarrow> train_env \<Rightarrow> SACAlgo result" where
  "SACAlgo_init cfg env =
     (let (obs_sz, act_sz) = (obs_size env, act_size env) in
      bind_r (py_assert (is_continuous_action env) ''SAC code dedicated to continuous actions'') (\<lambda>_.
      bind_r (SquashedGaussianActor_init obs_sz (actor_hidden_size (algorithm cfg)) act_sz) (\<lambda>act.
      let c1 = with_prefix
                 (ContinuousQAgent_init obs_sz (critic_hidden_size (algorithm cfg)) act_sz)
                 ''critic-1/'';
          tc1 = with_prefix c1 ''target-critic-1/'';
          c2 = with_prefix
                 (ContinuousQAgent_init obs_sz (critic_hidden_size (algorithm cfg)) act_sz)
                 ''critic-2/'';
          tc2 = with_prefix c2 ''target-critic-2/''
      in Inr \<lparr>actor = act, critic_1 = c1, target_critic_1 = tc1,
                critic_2 = c2, target_critic_2 = tc2\<rparr>)))"

section \<open>Concrete inputs\<close>

text \<open>
  A tensor library for policies with a single action: the softmax of one score is 1
  (NaN when the score is not a number), the entropy of that distribution is 0, and the
  action sampled or maximising is action 0; one environment runs, so the batch has one
  entry. \<^verbatim>\<open>squeeze(-1)\<close> drops a last dimension of size one.
\<close>

fun one_action_softmax :: "tensor \<Rightarrow> tensor" where
  "one_action_softmax (FloatT x) =
     FloatT (map_nd (\<lambda>a. case a of Num _ \<Rightarrow> Num 1 | _ \<Rightarrow> NaN) x)"
| "one_action_softmax x = x"

fun squeeze_nd :: "'a nd \<Rightarrow> 'a nd" where
  "squeeze_nd (Scalar x) = Scalar x"
| "squeeze_nd (Dim [Scalar x]) = Scalar x"
| "squeeze_nd (Dim ts) = Dim (map squeeze_nd ts)"

fun squeeze_tensor :: "tensor \<Rightarrow> tensor" where
  "squeeze_tensor (FloatT x) = FloatT (squeeze_nd x)"
| "squeeze_tensor (LongT x) = LongT (squeeze_nd x)"
| "squeeze_tensor (BoolT x) = BoolT (squeeze_nd x)"

fun unsqueeze0 :: "tensor \<Rightarrow> tensor" where
  "unsqueeze0 (FloatT x) = FloatT (Dim [x])"
| "unsqueeze0 (LongT x) = LongT (Dim [x])"
| "unsqueeze0 (BoolT x) = BoolT (Dim [x])"

definition one_action_torch :: torch where
  "one_action_torch =
     \<lparr>softmax = one_action_softmax,
      categorical_entropy = (\<lambda>p. FloatT (Dim [Scalar (Num 0)])),
      categorical_sample = (\<lambda>p. LongT (Dim [Scalar 0])),
      argmax1 = (\<lambda>p. LongT (Dim [Scalar 0])),
      squeeze_last = squeeze_tensor\<rparr>"

text \<open>
  A framework whose workspaces have one time step: the transitions are the workspace
  itself, and the tensor of a variable over time is its slot at step 0 under a time
  dimension of size one.
\<close>

definition one_step_framework :: framework where
  "one_step_framework =
     \<lparr>time_size = (\<lambda>ws. 1),
      get_transitions = (\<lambda>ws. ws),
      get_full = (\<lambda>ws name. case ws (name, 0) of
                    None \<Rightarrow> Inl (WorkspaceError name)
                  | Some v \<Rightarrow> Inr (unsqueeze0 v))\<rparr>"

text \<open>
  An episode of one step that ends in a terminal state, and a workspace whose
  observation is NaN.
\<close>

definition episode_ws :: workspace where
  "episode_ws = map_of
     [((''env/env_obs'', 0), FloatT (Dim [Dim [Scalar (Num 0)]])),
      ((''env/reward'', 0), FloatT (Dim [Scalar (Num 1)])),
      ((''env/terminated'', 0), BoolT (Dim [Scalar True])),
      ((''env/done'', 0), BoolT (Dim [Scalar True])),
      ((''action_probs'', 0), FloatT (Dim [Dim [Scalar (Num 1)]])),
      ((''action'', 0), LongT (Dim [Scalar 0]))]"

definition nan_ws :: workspace where
  "nan_ws = map_of [((''env/env_obs'', 0), FloatT (Dim [Dim [Scalar NaN]]))]"

text \<open>A workspace that holds action probabilities and no observation.\<close>

definition probs_only_ws :: workspace where
  "probs_only_ws = map_of [((''action_probs'', 0), FloatT (Dim [Dim [Scalar (Num 1)]]))]"

definition identity_prob_agent :: ProbAgent where
  "identity_prob_agent = \<lparr>model = (\<lambda>x. x)\<rparr>"

definition identity_critic_agent :: CriticAgent where
  "identity_critic_agent = \<lparr>critic_model = (\<lambda>x. x)\<rparr>"

definition fresh_a2c :: A2CAlgorithm where
  "fresh_a2c = \<lparr>n_evaluate = 0, prob_agent = identity_prob_agent,
                 critic_agent = identity_critic_agent\<rparr>"


text \<open>The configuration of the SAC notebook, and one with a fixed entropy coefficient.\<close>

definition sac_params :: sac_cfg where
  "sac_params =
     \<lparr>algorithm = \<lparr>entropy_mode = ''auto'', init_entropy_coef = 2 / 10000000,
                    actor_hidden_size = [64, 64], critic_hidden_size = [256, 256]\<rparr>,
      entropy_coef_optimizer = \<lparr>classname = ''torch.optim.Adam'', lr = 3 / 10000\<rparr>\<rparr>"


definition cartpole_continuous :: train_env where
  "cartpole_continuous = \<lparr>obs_size = 4, act_size = 1, is_continuous_action = True\<rparr>"

definition cartpole_discrete :: train_env where
  "cartpole_discrete = \<lparr>obs_size = 4, act_size = 2, is_continuous_action = False\<rparr>"


section \<open>Results and assertions\<close>

lemma bind_r_Inl [simp]: "bind_r (Inl e) f = Inl e"
  by (simp add: bind_r_def)

lemma bind_r_Inr [simp]: "bind_r (Inr x) f = f x"
  by (simp add: bind_r_def)

lemma py_assert_False [simp]: "py_assert False msg = Inl (AssertionError msg)"
  by (simp add: py_assert_def)

lemma py_assert_True [simp]: "py_assert True msg = Inr ()"
  by (simp add: py_assert_def)


section \<open>The placeholders\<close>

text \<open>
  C1, as amended. For every input, the A2C \<^verbatim>\<open>compute_critic_loss\<close>, the SAC
  \<^verbatim>\<open>compute_critic_loss\<close> and \<^verbatim>\<open>compute_actor_loss\<close>, and the REINFORCE exercises
  \<^verbatim>\<open>apply_discounted_sum\<close>, \<^verbatim>\<open>apply_discounted_sum_minus_baseline\<close>,
  \<^verbatim>\<open>compute_td_critic_loss\<close> and \<^verbatim>\<open>compute_critic_loss_mc\<close> raise an AssertionError
  with the message 'Not implemented yet' and return no value. The REINFORCE defaults
  \<^verbatim>\<open>compute_advantage\<close> and \<^verbatim>\<open>compute_critic_loss\<close> raise nothing: they return
  \<^verbatim>\<open>None\<close>.
\<close>

theorem placeholders_raise_defaults_return_none:
  "compute_critic_loss cfg1 reward1 must_bootstrap1 critic1
     = Inl (AssertionError ''Not implemented yet'')
   \<and> sac_compute_critic_loss cfg2 reward2 must_bootstrap2 t_actor2 t_q2 t_tq2 rb2 ent2
     = Inl (AssertionError ''Not implemented yet'')
   \<and> compute_actor_loss ent3 t_actor3 t_q3 rb3 = Inl (AssertionError ''Not implemented yet'')
   \<and> apply_discounted_sum cfg4 reward4 v4 = Inl (AssertionError ''Not implemented yet'')
   \<and> apply_discounted_sum_minus_baseline cfg5 reward5 v5
     = Inl (AssertionError ''Not implemented yet'')
   \<and> compute_td_critic_loss cfg6 reward6 must_bootstrap6 done6 critic6
     = Inl (AssertionError ''Not implemented yet'')
   \<and> compute_critic_loss_mc cfg7 reward7 must_bootstrap7 done7 critic7
     = Inl (AssertionError ''Not implemented yet'')
   \<and> compute_advantage cfg8 reward8 v8 = Inr PNone
   \<and> reinforce_compute_critic_loss cfg9 reward9 must_bootstrap9 done9 v9 = Inr PNone"
  by (simp add: compute_critic_loss_def sac_compute_critic_loss_def compute_actor_loss_def
      apply_discounted_sum_def apply_discounted_sum_minus_baseline_def
      compute_td_critic_loss_def compute_critic_loss_mc_def compute_advantage_def
      reinforce_compute_critic_loss_def not_implemented_def)

text \<open>
  C1 as stated fails: called on a reward tensor and no baseline, the default
  \<^verbatim>\<open>compute_advantage\<close> returns \<^verbatim>\<open>None\<close> instead of raising.
\<close>

theorem compute_advantage_does_not_raise:
  "compute_advantage () (PTensor (FloatT (Dim [Dim [Scalar (Num 1)]]))) PNone = Inr PNone
   \<and> compute_advantage () (PTensor (FloatT (Dim [Dim [Scalar (Num 1)]]))) PNone
       \<noteq> Inl (AssertionError ''Not implemented yet'')"
  by (simp add: compute_advantage_def)

text \<open>
  C3, as amended. For every cfg, reward, must_bootstrap and critic, the A2C
  \<^verbatim>\<open>compute_critic_loss\<close> raises the AssertionError of its placeholder and returns no
  pair: the statements that would compute the mean of the squared temporal-difference
  error and return it with \<^verbatim>\<open>delta\<close> stand after the assertion and are never run.
\<close>

theorem compute_critic_loss_returns_no_pair:
  "compute_critic_loss cfg reward must_bootstrap critic \<noteq> Inr (PTuple [loss, delta])
   \<and> isl (compute_critic_loss cfg reward must_bootstrap critic)
   \<and> projl (compute_critic_loss cfg reward must_bootstrap critic)
       = AssertionError ''Not implemented yet''"
  by (simp add: compute_critic_loss_def not_implemented_def)

text \<open>
  C3 as stated fails: on a reward, a bootstrap flag and a critic value of shape 2 x 1 the
  function returns no pair, it raises.
\<close>

theorem compute_critic_loss_raises_on_tensors:
  "compute_critic_loss ()
     (PTensor (FloatT (Dim [Dim [Scalar (Num 1)], Dim [Scalar (Num 1)]])))
     (PTensor (BoolT (Dim [Dim [Scalar True], Dim [Scalar False]])))
     (PTensor (FloatT (Dim [Dim [Scalar (Num 0)], Dim [Scalar (Num 0)]])))
   = Inl (AssertionError ''Not implemented yet'')"
  by (simp add: compute_critic_loss_def not_implemented_def)

section \<open>The A2C loop and its evaluation\<close>

lemma run_a2c_body_not_Inr: "run_a2c_body fw th a2c w \<noteq> Inr a2c'"
  by (cases "run_a2c_fetch fw th a2c w") (simp_all add: run_a2c_body_def)

lemma run_a2c_state: "snd (run_a2c fw th a2c episodes) = a2c"
  by (cases episodes) (auto split: sum.splits simp: run_a2c_body_not_Inr)

lemma fetch_episode:
  "run_a2c_fetch one_step_framework one_action_torch fresh_a2c episode_ws =
     Inr \<lparr>a_critic = FloatT (Dim [Dim [Scalar (Num 0)]]),
          a_reward = FloatT (Dim [Dim [Scalar (Num 1)]]),
          a_action = LongT (Dim [Dim [Scalar 0]]),
          a_action_probs = FloatT (Dim [Dim [Dim [Scalar (Num 1)]]]),
          a_terminated = BoolT (Dim [Dim [Scalar True]]),
          a_must_bootstrap = BoolT (Dim [Dim [Scalar False]])\<rparr>"
  by (simp add: run_a2c_fetch_def CriticAgent_forward_def ws_get_def ws_set_def
      episode_ws_def one_action_torch_def one_step_framework_def fresh_a2c_def
      identity_critic_agent_def)

text \<open>
  C4, as amended. No iteration of the A2C training loop reaches \<^verbatim>\<open>a2c.evaluate()\<close>:
  the call is the last statement of the loop body, after the placeholder that stands
  for the loss computation, and an iteration that gets as far as the placeholder raises
  AssertionError('Not implemented yet') there. So \<^verbatim>\<open>run_a2c\<close> makes no evaluation,
  whatever the episodes, and ends in an exception as soon as there is one episode.
\<close>

theorem run_a2c_never_reaches_evaluate:
  "n_evaluate (snd (run_a2c fw th a2c episodes)) = n_evaluate a2c
   \<and> (episodes \<noteq> [] \<longrightarrow> isl (fst (run_a2c fw th a2c episodes)))
   \<and> (run_a2c_fetch fw th a2c train_workspace = Inr locals \<longrightarrow>
        run_a2c_body fw th a2c train_workspace = Inl (AssertionError ''Not implemented yet''))"
proof (intro conjI impI)
  show "n_evaluate (snd (run_a2c fw th a2c episodes)) = n_evaluate a2c"
    by (simp add: run_a2c_state)
next
  assume "episodes \<noteq> []"
  then obtain w rest where "episodes = w # rest" by (cases episodes) auto
  then show "isl (fst (run_a2c fw th a2c episodes))"
    by (auto split: sum.splits simp: run_a2c_body_not_Inr)
next
  assume "run_a2c_fetch fw th a2c train_workspace = Inr locals"
  then show "run_a2c_body fw th a2c train_workspace = Inl (AssertionError ''Not implemented yet'')"
    by (simp add: run_a2c_body_def not_implemented_def)
qed

theorem run_a2c_never_reaches_evaluate_witness:
  "[episode_ws] \<noteq> []
   \<and> isl (fst (run_a2c one_step_framework one_action_torch fresh_a2c [episode_ws]))
   \<and> n_evaluate (snd (run_a2c one_step_framework one_action_torch fresh_a2c [episode_ws]))
       = n_evaluate fresh_a2c
   \<and> run_a2c_fetch one_step_framework one_action_torch fresh_a2c episode_ws
       = Inr \<lparr>a_critic = FloatT (Dim [Dim [Scalar (Num 0)]]),
          a_reward = FloatT (Dim [Dim [Scalar (Num 1)]]),
          a_action = LongT (Dim [Dim [Scalar 0]]),
          a_action_probs = FloatT (Dim [Dim [Dim [Scalar (Num 1)]]]),
          a_terminated = BoolT (Dim [Dim [Scalar True]]),
          a_must_bootstrap = BoolT (Dim [Dim [Scalar False]])\<rparr>
   \<and> run_a2c_body one_step_framework one_action_torch fresh_a2c episode_ws
       = Inl (AssertionError ''Not implemented yet'')"
  using run_a2c_never_reaches_evaluate [of one_step_framework one_action_torch fresh_a2c
      "[episode_ws]" episode_ws] fetch_episode
  by simp

text \<open>
  C4 as stated fails: run on one episode of one step, the loop ends in the
  placeholder's AssertionError and the algorithm object has counted no evaluation.
\<close>

theorem run_a2c_evaluate_not_reached:
  "fst (run_a2c one_step_framework one_action_torch fresh_a2c [episode_ws])
       = Inl (AssertionError ''Not implemented yet'')
   \<and> n_evaluate fresh_a2c = 0
   \<and> n_evaluate (snd (run_a2c one_step_framework one_action_torch fresh_a2c [episode_ws])) = 0"
  by (simp add: run_a2c_body_def fetch_episode not_implemented_def) (simp add: fresh_a2c_def)

section \<open>The bootstrap flag\<close>












section \<open>The agents\<close>

lemma ProbAgent_forward_obs:
  "ws (''env/env_obs'', t) = Some obs \<Longrightarrow>
   ProbAgent_forward th self t ws =
     (if any_isnan (softmax th (model self obs)) then Inl (AssertionError ''NaN Here'')
      else Inr (ws((''action_probs'', t) \<mapsto> softmax th (model self obs),
                   (''entropy'', t) \<mapsto> categorical_entropy th (softmax th (model self obs)))))"
  by (simp add: ProbAgent_forward_def ws_get_def ws_set_def Let_def)

lemma ProbAgent_forward_no_obs:
  "ws (''env/env_obs'', t) = None \<Longrightarrow>
   ProbAgent_forward th self t ws = Inl (WorkspaceError ''env/env_obs'')"
  by (simp add: ProbAgent_forward_def ws_get_def)

lemma episode_ws_obs:
  "episode_ws (''env/env_obs'', 0) = Some (FloatT (Dim [Dim [Scalar (Num 0)]]))"
  by (simp add: episode_ws_def)

lemma episode_ws_probs:
  "episode_ws (''action_probs'', 0) = Some (FloatT (Dim [Dim [Scalar (Num 1)]]))"
  by (simp add: episode_ws_def)

lemma nan_ws_obs: "nan_ws (''env/env_obs'', 0) = Some (FloatT (Dim [Dim [Scalar NaN]]))"
  by (simp add: nan_ws_def)

lemma probs_only_ws_probs:
  "probs_only_ws (''action_probs'', 0) = Some (FloatT (Dim [Dim [Scalar (Num 1)]]))"
  by (simp add: probs_only_ws_def)

lemma forward_episode:
  "ProbAgent_forward one_action_torch identity_prob_agent 0 episode_ws
     = Inr (episode_ws((''action_probs'', 0) \<mapsto> FloatT (Dim [Dim [Scalar (Num 1)]]),
                       (''entropy'', 0) \<mapsto> FloatT (Dim [Scalar (Num 0)])))"
  "StochasticActorAgent_forward one_action_torch 0 episode_ws
     = Inr (episode_ws((''action'', 0) \<mapsto> LongT (Dim [Scalar 0])))"
  "ArgmaxActorAgent_forward one_action_torch 0 probs_only_ws
     = Inr (probs_only_ws((''action'', 0) \<mapsto> LongT (Dim [Scalar 0])))"
  "CriticAgent_forward one_action_torch identity_critic_agent 0 episode_ws
     = Inr (episode_ws((''critic'', 0) \<mapsto> FloatT (Dim [Scalar (Num 0)])))"
  by (simp_all add: ProbAgent_forward_obs [of episode_ws 0 "FloatT (Dim [Dim [Scalar (Num 0)]])"]
      StochasticActorAgent_forward_def
      ArgmaxActorAgent_forward_def CriticAgent_forward_def ws_get_def ws_set_def
      episode_ws_obs episode_ws_probs probs_only_ws_probs
      one_action_torch_def identity_prob_agent_def identity_critic_agent_def)

lemma forward_nan:
  "ProbAgent_forward one_action_torch identity_prob_agent 0 nan_ws
     = Inl (AssertionError ''NaN Here'')"
  by (simp add: ProbAgent_forward_obs [of nan_ws 0 "FloatT (Dim [Dim [Scalar NaN]])"]
      nan_ws_obs one_action_torch_def identity_prob_agent_def)







section \<open>Assertions that check\<close>

lemma SACAlgo_init_assert:
  "(SACAlgo_init cfg env = Inl (AssertionError msg))
     = (\<not> is_continuous_action env \<and> msg = ''SAC code dedicated to continuous actions'')"
  by (auto simp: SACAlgo_init_def SquashedGaussianActor_init_def py_assert_def Let_def)

lemma ProbAgent_forward_assert:
  "(ProbAgent_forward th pa t ws = Inl (AssertionError msg))
     = (msg = ''NaN Here'' \<and>
        (\<exists>obs. ws (''env/env_obs'', t) = Some obs \<and> any_isnan (softmax th (model pa obs))))"
proof (cases "ws (''env/env_obs'', t)")
  case None
  then show ?thesis by (simp add: ProbAgent_forward_no_obs)
next
  case (Some obs)
  then show ?thesis by (auto simp: ProbAgent_forward_obs)
qed

text \<open>
  C5, as amended. The assertions of the exercise stubs are placeholders that fail on
  every input with 'Not implemented yet', but not every assertion is one: the assertion
  of \<^verbatim>\<open>SACAlgo.__init__\<close> fails exactly when the training environment has no
  continuous actions, and the assertion of \<^verbatim>\<open>ProbAgent.forward\<close> fails exactly when
  the action probabilities computed from the observation have a NaN entry; neither
  ever fails with the placeholder's message.
\<close>

theorem assertions_are_runtime_checks:
  "(SACAlgo_init cfg env = Inl (AssertionError ''SAC code dedicated to continuous actions''))
      = (\<not> is_continuous_action env)
   \<and> SACAlgo_init cfg env \<noteq> Inl (AssertionError ''Not implemented yet'')
   \<and> (ProbAgent_forward th pa t ws = Inl (AssertionError ''NaN Here''))
      = (\<exists>obs. ws (''env/env_obs'', t) = Some obs \<and> any_isnan (softmax th (model pa obs)))
   \<and> ProbAgent_forward th pa t ws \<noteq> Inl (AssertionError ''Not implemented yet'')
   \<and> compute_critic_loss c r m v = Inl (AssertionError ''Not implemented yet'')"
  by (simp add: SACAlgo_init_assert ProbAgent_forward_assert compute_critic_loss_def
      not_implemented_def)

theorem assertions_are_runtime_checks_witness:
  "\<not> is_continuous_action cartpole_discrete
   \<and> SACAlgo_init sac_params cartpole_discrete
       = Inl (AssertionError ''SAC code dedicated to continuous actions'')
   \<and> nan_ws (''env/env_obs'', 0) = Some (FloatT (Dim [Dim [Scalar NaN]]))
   \<and> any_isnan (softmax one_action_torch
                  (model identity_prob_agent (FloatT (Dim [Dim [Scalar NaN]]))))
   \<and> ProbAgent_forward one_action_torch identity_prob_agent 0 nan_ws
       = Inl (AssertionError ''NaN Here'')"
  using assertions_are_runtime_checks [of sac_params cartpole_discrete one_action_torch
      identity_prob_agent 0 nan_ws "()" PNone PNone PNone]
  by (simp add: cartpole_discrete_def nan_ws_obs one_action_torch_def identity_prob_agent_def)

text \<open>
  C5 as stated fails: on an observation that is NaN, \<^verbatim>\<open>ProbAgent.forward\<close> fails
  with 'NaN Here' and on a finite one it returns; on an environment with discrete
  actions \<^verbatim>\<open>SACAlgo.__init__\<close> fails with its own message and on one with continuous
  actions it returns. Neither message is the placeholder's.
\<close>

theorem assertions_with_other_messages:
  "ProbAgent_forward one_action_torch identity_prob_agent 0 nan_ws
     = Inl (AssertionError ''NaN Here'')
   \<and> \<not> isl (ProbAgent_forward one_action_torch identity_prob_agent 0 episode_ws)
   \<and> SACAlgo_init sac_params cartpole_discrete
     = Inl (AssertionError ''SAC code dedicated to continuous actions'')
   \<and> \<not> isl (SACAlgo_init sac_params cartpole_continuous)
   \<and> ''NaN Here'' \<noteq> not_implemented
   \<and> ''SAC code dedicated to continuous actions'' \<noteq> not_implemented"
  by (simp add: forward_nan forward_episode not_implemented_def
      SACAlgo_init_def SquashedGaussianActor_init_def sac_params_def cartpole_discrete_def
      cartpole_continuous_def Let_def)

section \<open>The sum of rewards is the column sums, in a new tensor\<close>

















section \<open>A reference definition for the sum of rewards\<close>






section \<open>The entropy optimizer\<close>



end
